theory Spec2Isabelle
  imports Main
begin

section \<open>swb: template based static site builder (main.go)\<close>

text \<open>
  The program keeps a destination tree in step with a source tree: \<open>clean\<close> walks the
  destination tree and deletes what has no counterpart in the source tree, \<open>build\<close>
  walks the source tree and creates directories, hard links and built pages, and
  \<open>buildPage\<close> expands the site's template by running its command blocks.

  Go strings are byte strings and are modelled as \<open>string\<close>. A Go function that
  returns \<open>error\<close> returns a \<open>status\<close> here; a run-time panic (nil dereference,
  slice bounds) is a value of its own, since it ends the process.
\<close>

subsection \<open>Configuration (Builder, Site, Config)\<close>

record Builder =
  Ext :: string
  Bin :: string

record Site =
  Name :: string
  SrcRoot :: string
  DstRoot :: string
  TplPath :: string
  Env :: "string list"

record Config =
  Sites :: "Site list"
  Builder :: Builder
  RunCmd :: "string list"

subsection \<open>Library functions on strings and paths\<close>

text \<open>\<open>strings.TrimPrefix\<close> and \<open>strings.TrimSuffix\<close>.\<close>

definition HasPrefix :: "string \<Rightarrow> string \<Rightarrow> bool" where
  "HasPrefix s p = (length p \<le> length s \<and> take (length p) s = p)"

definition HasSuffix :: "string \<Rightarrow> string \<Rightarrow> bool" where
  "HasSuffix s x = (length x \<le> length s \<and> drop (length s - length x) s = x)"

definition TrimPrefix :: "string \<Rightarrow> string \<Rightarrow> string" where
  "TrimPrefix s p = (if HasPrefix s p then drop (length p) s else s)"

definition TrimSuffix :: "string \<Rightarrow> string \<Rightarrow> string" where
  "TrimSuffix s x = (if HasSuffix s x then take (length s - length x) s else s)"

text \<open>
  \<open>filepath.Ext\<close>: the suffix beginning at the final dot of the final element of the
  path, empty when there is no dot. The scan runs from the end of the path and stops
  at a separator.
\<close>

fun ext_scan :: "string \<Rightarrow> string \<Rightarrow> string" where
  "ext_scan [] acc = []"
| "ext_scan (c # cs) acc =
     (if c = CHR ''/'' then []
      else if c = CHR ''.'' then c # acc
      else ext_scan cs (c # acc))"

definition filepath_Ext :: "string \<Rightarrow> string" where
  "filepath_Ext path = ext_scan (rev path) []"

text \<open>\<open>filepath.Base\<close>: the last element of the path, after trailing separators are
  stripped.\<close>

definition filepath_Base :: "string \<Rightarrow> string" where
  "filepath_Base path =
     (if path = [] then ''.''
      else (let p = dropWhile (\<lambda>c. c = CHR ''/'') (rev path);
                b = rev (takeWhile (\<lambda>c. c \<noteq> CHR ''/'') p)
            in if b = [] then ''/'' else b))"

text \<open>
  \<open>filepath.Clean\<close> and \<open>filepath.Join\<close> (Unix). \<open>Clean\<close> works element by
  element: empty elements and \<open>.\<close> are dropped, \<open>..\<close> removes the element before it
  where there is one (a rooted path drops it at the root, a relative path keeps a leading
  run of \<open>..\<close>), and the empty result is \<open>.\<close>.
\<close>

fun split_sep :: "string \<Rightarrow> string \<Rightarrow> string list" where
  "split_sep [] cur = [rev cur]"
| "split_sep (c # cs) cur =
     (if c = CHR ''/'' then rev cur # split_sep cs [] else split_sep cs (c # cur))"

fun clean_elems :: "bool \<Rightarrow> string list \<Rightarrow> string list \<Rightarrow> string list" where
  "clean_elems rooted st [] = rev st"
| "clean_elems rooted st (e # es) =
     (if e = [] \<or> e = ''.'' then clean_elems rooted st es
      else if e = ''..'' then
        (case st of
           [] \<Rightarrow> if rooted then clean_elems rooted [] es else clean_elems rooted [''..''] es
         | x # st' \<Rightarrow>
             if x = ''..'' then clean_elems rooted (''..'' # st) es
             else clean_elems rooted st' es)
      else clean_elems rooted (e # st) es)"

fun join_sep :: "string list \<Rightarrow> string" where
  "join_sep [] = []"
| "join_sep [e] = e"
| "join_sep (e # es) = e @ ''/'' @ join_sep es"

definition filepath_Clean :: "string \<Rightarrow> string" where
  "filepath_Clean path =
     (if path = [] then ''.''
      else (let rooted = (hd path = CHR ''/'');
                out = (if rooted then ''/'' else []) @ join_sep (clean_elems rooted [] (split_sep path []))
            in if out = [] then ''.'' else out))"

definition filepath_Join :: "string \<Rightarrow> string \<Rightarrow> string" where
  "filepath_Join a b =
     (if a \<noteq> [] then filepath_Clean (a @ ''/'' @ b)
      else if b \<noteq> [] then filepath_Clean b
      else [])"

subsection \<open>Outcomes\<close>

datatype errno = ENOENT | ENOTDIR | EEXIST | EISDIR | ENOTEMPTY | EPERM

datatype error =
    PathError errno string
  | NotSyscall

text \<open>\<open>errors.Is(err, os.ErrNotExist)\<close> holds of \<open>ENOENT\<close> only.\<close>

fun is_not_exist :: "error \<Rightarrow> bool" where
  "is_not_exist (PathError e p) = (e = ENOENT)"
| "is_not_exist NotSyscall = False"

datatype status = Nil | Failed error | Panicked

subsection \<open>The child process of a command block (buildPage, lines 151 to 154)\<close>

text \<open>
  \<open>cmdArgs := append(config.RunCmd, cmdStr)\<close> and then
  \<open>exec.Command(cmdArgs[0], cmdArgs[len(config.RunCmd)-1:]...)\<close>. \<open>exec.Command\<close>
  makes the argument vector of the child its first argument followed by the others. With
  an empty \<open>RunCmd\<close> the slice expression has the lower bound \<open>-1\<close> and panics.
\<close>

definition cmdArgs :: "Config \<Rightarrow> string \<Rightarrow> string list" where
  "cmdArgs config cmdStr = RunCmd config @ [cmdStr]"

definition exec_Command :: "string \<Rightarrow> string list \<Rightarrow> string list" where
  "exec_Command name args = name # args"

definition command_argv :: "Config \<Rightarrow> string \<Rightarrow> string list option" where
  "command_argv config cmdStr =
     (if length (RunCmd config) = 0 then None
      else Some (exec_Command (cmdArgs config cmdStr ! 0)
                   (drop (length (RunCmd config) - 1) (cmdArgs config cmdStr))))"

subsection \<open>The file system (package os)\<close>

text \<open>
  The file system is a tree of directories and files with the working directory at its
  root. A file node names an inode; two file nodes with the same inode are hard links of
  one file, whose modification time and content live in the inode table. A directory has
  an inode (and with it a modification time) too. There are no symbolic links, so
  \<open>os.Lstat\<close> and \<open>os.Stat\<close> agree, and no permissions: the errors of the model are
  the ones the shape of the tree causes (\<open>ENOENT\<close>, \<open>ENOTDIR\<close>, \<open>EEXIST\<close>, ...).
  Every change stamps the clock's value and advances the clock.
\<close>

datatype node = File nat | Dir nat "(string \<times> node) list"

record inode =
  mtime :: nat
  data :: string

record filesys =
  root :: node
  inodes :: "(nat \<times> inode) list"
  next_ino :: nat
  clock :: nat

record Stat_t =
  Ino :: nat

record FileInfo =
  IsDir :: bool
  ModTime :: nat
  Sys :: "Stat_t option"

record DirEntry =
  d_Name :: string
  d_IsDir :: bool

text \<open>The inode table is an association list; the first pair for a number is the
  inode, and a number without a pair is an empty file of time \<open>0\<close>.\<close>

definition inode_of :: "filesys \<Rightarrow> nat \<Rightarrow> inode" where
  "inode_of fs i =
     (case map_of (inodes fs) i of None \<Rightarrow> \<lparr>mtime = 0, data = []\<rparr> | Some x \<Rightarrow> x)"

definition path_elems :: "string \<Rightarrow> string list" where
  "path_elems path = clean_elems True [] (split_sep path [])"

fun lookup :: "node \<Rightarrow> string list \<Rightarrow> errno + node" where
  "lookup n [] = Inr n"
| "lookup (File i) (e # es) = Inl ENOTDIR"
| "lookup (Dir i ents) (e # es) =
     (case map_of ents e of None \<Rightarrow> Inl ENOENT | Some n \<Rightarrow> lookup n es)"

fun node_ino :: "node \<Rightarrow> nat" where
  "node_ino (File i) = i"
| "node_ino (Dir i ents) = i"

fun node_is_dir :: "node \<Rightarrow> bool" where
  "node_is_dir (File i) = False"
| "node_is_dir (Dir i ents) = True"

definition info_of :: "filesys \<Rightarrow> node \<Rightarrow> FileInfo" where
  "info_of fs n =
     \<lparr>IsDir = node_is_dir n, ModTime = mtime (inode_of fs (node_ino n)),
      Sys = Some \<lparr>Ino = node_ino n\<rparr>\<rparr>"

definition os_Stat :: "filesys \<Rightarrow> string \<Rightarrow> error + FileInfo" where
  "os_Stat fs path =
     (if path = [] then Inl (PathError ENOENT path)
      else (case lookup (root fs) (path_elems path) of
              Inl e \<Rightarrow> Inl (PathError e path)
            | Inr n \<Rightarrow> Inr (info_of fs n)))"

definition os_Lstat :: "filesys \<Rightarrow> string \<Rightarrow> error + FileInfo" where
  "os_Lstat fs path = os_Stat fs path"

text \<open>\<open>os.ReadDir\<close> returns the entries of a directory sorted by file name.\<close>

fun str_less :: "string \<Rightarrow> string \<Rightarrow> bool" where
  "str_less [] [] = False"
| "str_less [] (y # ys) = True"
| "str_less (x # xs) [] = False"
| "str_less (x # xs) (y # ys) =
     ((of_char x :: nat) < of_char y \<or> (x = y \<and> str_less xs ys))"

fun insert_entry :: "DirEntry \<Rightarrow> DirEntry list \<Rightarrow> DirEntry list" where
  "insert_entry d [] = [d]"
| "insert_entry d (x # xs) =
     (if str_less (d_Name x) (d_Name d) then x # insert_entry d xs else d # x # xs)"

fun sort_entries :: "DirEntry list \<Rightarrow> DirEntry list" where
  "sort_entries [] = []"
| "sort_entries (d # ds) = insert_entry d (sort_entries ds)"

definition entry_of :: "string \<times> node \<Rightarrow> DirEntry" where
  "entry_of kv = \<lparr>d_Name = fst kv, d_IsDir = node_is_dir (snd kv)\<rparr>"

definition os_ReadDir :: "filesys \<Rightarrow> string \<Rightarrow> error + DirEntry list" where
  "os_ReadDir fs path =
     (if path = [] then Inl (PathError ENOENT path)
      else (case lookup (root fs) (path_elems path) of
              Inl e \<Rightarrow> Inl (PathError e path)
            | Inr (File i) \<Rightarrow> Inl (PathError ENOTDIR path)
            | Inr (Dir i ents) \<Rightarrow> Inr (sort_entries (map entry_of ents))))"

definition os_ReadFile :: "filesys \<Rightarrow> string \<Rightarrow> error + string" where
  "os_ReadFile fs path =
     (if path = [] then Inl (PathError ENOENT path)
      else (case lookup (root fs) (path_elems path) of
              Inl e \<Rightarrow> Inl (PathError e path)
            | Inr (Dir i ents) \<Rightarrow> Inl (PathError EISDIR path)
            | Inr (File i) \<Rightarrow> Inr (data (inode_of fs i))))"

text \<open>
  Changing the tree: \<open>modify es v\<close> sets (\<open>Some\<close>) or removes (\<open>None\<close>) the entry
  that the elements \<open>es\<close> name, inside its parent directory.
\<close>

fun set_entry :: "string \<Rightarrow> node option \<Rightarrow> (string \<times> node) list \<Rightarrow> (string \<times> node) list" where
  "set_entry e None ents = filter (\<lambda>kv. fst kv \<noteq> e) ents"
| "set_entry e (Some n) ents = (e, n) # filter (\<lambda>kv. fst kv \<noteq> e) ents"

fun modify :: "string list \<Rightarrow> node option \<Rightarrow> node \<Rightarrow> node" where
  "modify [] v n = n"
| "modify (e # es) v (File i) = File i"
| "modify (e # es) v (Dir i ents) =
     (if es = [] then Dir i (set_entry e v ents)
      else (case map_of ents e of
              None \<Rightarrow> Dir i ents
            | Some n \<Rightarrow> Dir i (set_entry e (Some (modify es v n)) ents)))"

definition stamp :: "nat \<Rightarrow> string \<Rightarrow> filesys \<Rightarrow> filesys" where
  "stamp i d fs = fs\<lparr>inodes := (i, \<lparr>mtime = clock fs, data = d\<rparr>) # inodes fs\<rparr>"

definition touch_dir :: "string list \<Rightarrow> filesys \<Rightarrow> filesys" where
  "touch_dir es fs =
     (case lookup (root fs) es of
        Inr (Dir i ents) \<Rightarrow> stamp i [] fs
      | _ \<Rightarrow> fs)"

definition tick :: "filesys \<Rightarrow> filesys" where
  "tick fs = fs\<lparr>clock := Suc (clock fs)\<rparr>"

definition put_entry :: "string list \<Rightarrow> node option \<Rightarrow> filesys \<Rightarrow> filesys" where
  "put_entry es v fs = tick (touch_dir (butlast es) (fs\<lparr>root := modify es v (root fs)\<rparr>))"

text \<open>The parent directory of a path that does not exist yet.\<close>

definition parent_errno :: "filesys \<Rightarrow> string list \<Rightarrow> errno option" where
  "parent_errno fs es =
     (if es = [] then Some EEXIST
      else (case lookup (root fs) (butlast es) of
              Inl e \<Rightarrow> Some e
            | Inr (File i) \<Rightarrow> Some ENOTDIR
            | Inr (Dir i ents) \<Rightarrow> None))"

definition mkdir :: "string list \<Rightarrow> filesys \<Rightarrow> filesys" where
  "mkdir es fs =
     stamp (next_ino fs) []
       (put_entry es (Some (Dir (next_ino fs) [])) (fs\<lparr>next_ino := Suc (next_ino fs)\<rparr>))"

text \<open>
  \<open>os.MkdirAll\<close>: nothing to do for a directory that exists, \<open>ENOTDIR\<close> for a file in
  the way, and otherwise the missing directories are made from the top down.
\<close>

fun mkdir_all :: "string list \<Rightarrow> string list \<Rightarrow> filesys \<Rightarrow> errno option \<times> filesys" where
  "mkdir_all pre [] fs = (None, fs)"
| "mkdir_all pre (e # es) fs =
     (case lookup (root fs) (pre @ [e]) of
        Inr (Dir i ents) \<Rightarrow> mkdir_all (pre @ [e]) es fs
      | Inr (File i) \<Rightarrow> (Some ENOTDIR, fs)
      | Inl err \<Rightarrow>
          if err = ENOENT then mkdir_all (pre @ [e]) es (mkdir (pre @ [e]) fs)
          else (Some err, fs))"

definition os_MkdirAll :: "filesys \<Rightarrow> string \<Rightarrow> error option \<times> filesys" where
  "os_MkdirAll fs path =
     (if path = [] then (Some (PathError ENOENT path), fs)
      else (case mkdir_all [] (path_elems path) fs of
              (None, fs') \<Rightarrow> (None, fs')
            | (Some e, fs') \<Rightarrow> (Some (PathError e path), fs')))"

text \<open>\<open>os.Link\<close>: a new name for the inode of an existing file.\<close>

definition os_Link :: "filesys \<Rightarrow> string \<Rightarrow> string \<Rightarrow> error option \<times> filesys" where
  "os_Link fs oldname newname =
     (if oldname = [] \<or> newname = [] then (Some (PathError ENOENT oldname), fs)
      else (case lookup (root fs) (path_elems oldname) of
              Inl e \<Rightarrow> (Some (PathError e oldname), fs)
            | Inr (Dir i ents) \<Rightarrow> (Some (PathError EPERM oldname), fs)
            | Inr (File i) \<Rightarrow>
                (case lookup (root fs) (path_elems newname) of
                   Inr n \<Rightarrow> (Some (PathError EEXIST newname), fs)
                 | Inl e \<Rightarrow>
                     (case parent_errno fs (path_elems newname) of
                        Some e' \<Rightarrow> (Some (PathError e' newname), fs)
                      | None \<Rightarrow> (None, put_entry (path_elems newname) (Some (File i)) fs)))))"

text \<open>\<open>os.Remove\<close> removes a file or an empty directory; \<open>os.RemoveAll\<close> removes a
  path with everything below it and succeeds when the path does not exist.\<close>

definition os_Remove :: "filesys \<Rightarrow> string \<Rightarrow> error option \<times> filesys" where
  "os_Remove fs path =
     (if path = [] then (Some (PathError ENOENT path), fs)
      else if path_elems path = [] then (Some (PathError EPERM path), fs)
      else (case lookup (root fs) (path_elems path) of
              Inl e \<Rightarrow> (Some (PathError e path), fs)
            | Inr (File i) \<Rightarrow> (None, put_entry (path_elems path) None fs)
            | Inr (Dir i ents) \<Rightarrow>
                if ents = [] then (None, put_entry (path_elems path) None fs)
                else (Some (PathError ENOTEMPTY path), fs)))"

definition os_RemoveAll :: "filesys \<Rightarrow> string \<Rightarrow> error option \<times> filesys" where
  "os_RemoveAll fs path =
     (if path = [] then (None, fs)
      else if path_elems path = [] then (Some (PathError EPERM path), fs)
      else (case lookup (root fs) (path_elems path) of
              Inl e \<Rightarrow> (if e = ENOENT then (None, fs) else (Some (PathError e path), fs))
            | Inr n \<Rightarrow> (None, put_entry (path_elems path) None fs)))"

text \<open>\<open>os.WriteFile\<close> truncates an existing file (same inode: every hard link sees the
  new content) or creates the file in an existing directory.\<close>

definition os_WriteFile :: "filesys \<Rightarrow> string \<Rightarrow> string \<Rightarrow> error option \<times> filesys" where
  "os_WriteFile fs path d =
     (if path = [] then (Some (PathError ENOENT path), fs)
      else (case lookup (root fs) (path_elems path) of
              Inr (File i) \<Rightarrow> (None, tick (stamp i d fs))
            | Inr (Dir i ents) \<Rightarrow> (Some (PathError EISDIR path), fs)
            | Inl e \<Rightarrow>
                (case parent_errno fs (path_elems path) of
                   Some e' \<Rightarrow> (Some (PathError e' path), fs)
                 | None \<Rightarrow>
                     (None, tick (stamp (next_ino fs) d
                        (put_entry (path_elems path) (Some (File (next_ino fs)))
                           (fs\<lparr>next_ino := Suc (next_ino fs)\<rparr>)))))))"

subsection \<open>The template's command blocks (package regexp)\<close>

text \<open>
  The expression of \<open>buildPage\<close> is \<^verbatim>\<open>(?ms)^\s*%{(.*?)(?ms)^}%\<close>: at the start of
  a line, any run of white space (\<^verbatim>\<open>\s\<close> is tab, newline, form feed, carriage return
  and space, so the run may span lines), the opening marker, the shortest text (newlines
  included) that ends at the start of a line, and there the closing marker. The matcher
  below is this expression under Go's leftmost-first rule: the white space is followed by
  \<^verbatim>\<open>%\<close>, so the greedy run is the whole run, and the lazy group stops at the first
  line that starts with the closing marker.
\<close>

definition is_space :: "char \<Rightarrow> bool" where
  "is_space c = (c = CHR 0x09 \<or> c = CHR 0x0A \<or> c = CHR 0x0C \<or> c = CHR 0x0D \<or> c = CHR '' '')"

definition newline :: char where
  "newline = CHR 0x0A"

text \<open>\<open>match_close bol s\<close>: the lazy group and the closing marker; \<open>bol\<close> says whether
  \<open>s\<close> starts a line. It returns the group and the text after the marker.\<close>

fun match_close :: "bool \<Rightarrow> string \<Rightarrow> (string \<times> string) option" where
  "match_close bol [] = None"
| "match_close bol (c # cs) =
     (if bol \<and> HasPrefix (c # cs) ''}%'' then Some ([], drop 2 (c # cs))
      else (case match_close (c = newline) cs of
              None \<Rightarrow> None
            | Some (body, rest) \<Rightarrow> Some (c # body, rest)))"

text \<open>\<open>match_at s\<close>: a match that starts at the start \<open>s\<close> of a line: the matched text,
  the group and the text after the match.\<close>

definition match_at :: "string \<Rightarrow> (string \<times> string \<times> string) option" where
  "match_at s =
     (let ws = takeWhile is_space s; r = dropWhile is_space s
      in if HasPrefix r ''%{'' then
           (case match_close False (drop 2 r) of
              None \<Rightarrow> None
            | Some (body, rest) \<Rightarrow> Some (ws @ ''%{'' @ body @ ''}%'', body, rest))
         else None)"

definition try_match :: "bool \<Rightarrow> string \<Rightarrow> (string \<times> string \<times> string) option" where
  "try_match bol s = (if bol then match_at s else None)"

text \<open>\<open>re.FindStringSubmatch\<close>: the leftmost match, as the list of the matched text and
  the group, or the empty list (nil) when nothing matches.\<close>

fun find_from :: "bool \<Rightarrow> string \<Rightarrow> string list" where
  "find_from bol [] = (case try_match bol [] of None \<Rightarrow> [] | Some (m, body, rest) \<Rightarrow> [m, body])"
| "find_from bol (c # cs) =
     (case try_match bol (c # cs) of
        None \<Rightarrow> find_from (c = newline) cs
      | Some (m, body, rest) \<Rightarrow> [m, body])"

definition FindStringSubmatch :: "string \<Rightarrow> string list" where
  "FindStringSubmatch s = find_from True s"

text \<open>
  \<open>re.ReplaceAllStringFunc\<close> cuts the text into the pieces between the matches and the
  matches, from left to right, each search starting where the last match ended, and
  replaces each match by what the function returns for it.
\<close>

datatype segment = Text string | Block string

lemma match_close_shorter: "match_close bol s = Some (body, rest) \<Longrightarrow> length rest < length s"
proof (induction s arbitrary: bol body)
  case Nil
  then show ?case by simp
next
  case (Cons c cs)
  then show ?case
    by (fastforce simp: HasPrefix_def split: if_splits option.splits)
qed

lemma match_at_shorter: "match_at s = Some (m, body, rest) \<Longrightarrow> length rest < length s"
proof -
  assume a: "match_at s = Some (m, body, rest)"
  then have "match_close False (drop 2 (dropWhile is_space s)) = Some (body, rest)"
    by (auto simp: match_at_def Let_def split: if_splits option.splits)
  then have "length rest < length (drop 2 (dropWhile is_space s))"
    by (rule match_close_shorter)
  also have "\<dots> \<le> length s"
    using length_dropWhile_le [of is_space s] by simp
  finally show ?thesis .
qed

function segments :: "bool \<Rightarrow> string \<Rightarrow> segment list" where
  "segments bol s =
     (case try_match bol s of
        Some (m, body, rest) \<Rightarrow> Block m # segments False rest
      | None \<Rightarrow>
          (case s of
             [] \<Rightarrow> []
           | c # cs \<Rightarrow> Text [c] # segments (c = newline) cs))"
  by pat_completeness auto
termination
  by (relation "measure (\<lambda>(bol, s). length s)")
     (auto simp: try_match_def dest: match_at_shorter split: if_splits)

declare segments.simps [simp del]

fun replace_segments ::
  "(string \<Rightarrow> 'w \<Rightarrow> string option \<times> 'w) \<Rightarrow> segment list \<Rightarrow> 'w \<Rightarrow> string option \<times> 'w" where
  "replace_segments repl [] w = (Some [], w)"
| "replace_segments repl (Text t # segs) w =
     (case replace_segments repl segs w of
        (None, w1) \<Rightarrow> (None, w1)
      | (Some out, w1) \<Rightarrow> (Some (t @ out), w1))"
| "replace_segments repl (Block m # segs) w =
     (case repl m w of
        (None, w1) \<Rightarrow> (None, w1)
      | (Some r, w1) \<Rightarrow>
          (case replace_segments repl segs w1 of
             (None, w2) \<Rightarrow> (None, w2)
           | (Some out, w2) \<Rightarrow> (Some (r @ out), w2)))"

text \<open>The function passed to \<open>ReplaceAllStringFunc\<close> prints and starts a process, and
  it can panic: it takes and returns the state, and \<open>None\<close> is the panic.\<close>

definition ReplaceAllStringFunc ::
  "string \<Rightarrow> (string \<Rightarrow> 'w \<Rightarrow> string option \<times> 'w) \<Rightarrow> 'w \<Rightarrow> string option \<times> 'w" where
  "ReplaceAllStringFunc src repl w = replace_segments repl (segments True src) w"

subsection \<open>The state of a run\<close>

text \<open>
  What the program prints on standard output, one value for each print statement:
  \<^verbatim>\<open>" + %s\n"\<close>, \<^verbatim>\<open>" ^ %s\n"\<close>, \<^verbatim>\<open>" - %s\n"\<close>, \<^verbatim>\<open>" - %s/*\n"\<close> and the
  \<open>fmt.Println(cmdArgs)\<close> of \<open>buildPage\<close>.
\<close>

datatype event =
    Created string
  | Updated string
  | Removed string
  | RemovedTree string
  | Printed "string list"

record world =
  fsys :: filesys
  stdout :: "event list"

definition emit :: "event \<Rightarrow> world \<Rightarrow> world" where
  "emit ev w = w\<lparr>stdout := stdout w @ [ev]\<rparr>"

text \<open>
  The environment of the process and the outcome of a child process: \<open>run_cmd\<close> gives,
  for the file system, the argument vector and the environment of the child, the
  description of the error of \<open>cmd.Run()\<close> (\<open>Inl\<close>) or the standard output of the
  child (\<open>Inr\<close>). A child reads the trees and does not change them.
\<close>

record host =
  environ :: "string list"
  run_cmd :: "filesys \<Rightarrow> string list \<Rightarrow> string list \<Rightarrow> string + string"

subsection \<open>buildPage\<close>

definition block_env :: "host \<Rightarrow> Config \<Rightarrow> Site \<Rightarrow> string \<Rightarrow> string \<Rightarrow> string list" where
  "block_env h config site srcPath dstPath =
     (let srcBase = filepath_Base srcPath
      in environ h @
         [''page_name='' @ TrimSuffix srcBase (filepath_Ext srcBase),
          ''builder='' @ Bin (Builder config),
          ''site_name='' @ Name site,
          ''src_path='' @ srcPath,
          ''dst_path='' @ dstPath] @
         Env site)"

definition block_fn ::
  "host \<Rightarrow> Config \<Rightarrow> Site \<Rightarrow> string \<Rightarrow> string \<Rightarrow> string \<Rightarrow> world \<Rightarrow> string option \<times> world" where
  "block_fn h config site srcPath dstPath match w =
     (let submatches = FindStringSubmatch match
      in if length submatches < 2 then (Some match, w)
         else (let cmdStr = submatches ! 1;
                   w1 = emit (Printed (cmdArgs config cmdStr)) w
               in case command_argv config cmdStr of
                    None \<Rightarrow> (None, w1)
                  | Some argv \<Rightarrow>
                      (case run_cmd h (fsys w1) argv (block_env h config site srcPath dstPath) of
                         Inl err \<Rightarrow> (Some err, w1)
                       | Inr out \<Rightarrow> (Some out, w1))))"

text \<open>The result of \<open>os.WriteFile\<close> is dropped (line 175): \<open>buildPage\<close> returns nil
  whether the document was written or not.\<close>

definition buildPage ::
  "host \<Rightarrow> Config \<Rightarrow> Site \<Rightarrow> string \<Rightarrow> string \<Rightarrow> world \<Rightarrow> status \<times> world" where
  "buildPage h config site srcPath dstPath w =
     (case os_ReadFile (fsys w) (TplPath site) of
        Inl err \<Rightarrow> (Failed err, w)
      | Inr templateString \<Rightarrow>
          (case ReplaceAllStringFunc templateString (block_fn h config site srcPath dstPath) w of
             (None, w1) \<Rightarrow> (Panicked, w1)
           | (Some built, w1) \<Rightarrow>
               (Nil, w1\<lparr>fsys := snd (os_WriteFile (fsys w1) dstPath built)\<rparr>)))"

subsection \<open>filepath.WalkDir\<close>

text \<open>
  \<open>WalkDir\<close> calls the function on the root and then, for a directory, reads the
  directory after the call and walks its entries in the order of their names. When the
  directory cannot be read the function is called a second time, with the error. The two
  functions of this program never return \<open>SkipDir\<close> or \<open>SkipAll\<close>, so any result but
  nil stops the walk. A walk can create directories inside the tree it walks (a
  destination root below the source root), so it takes fuel, the depth it may descend
  to, and \<open>None\<close> says that the fuel ran out.

  \<open>ent.Info()\<close> of an entry read from a directory is the \<open>lstat\<close> of its path at the
  time of the call; a nil entry panics.
\<close>

type_synonym WalkDirFunc = "string \<Rightarrow> DirEntry option \<Rightarrow> error option \<Rightarrow> world \<Rightarrow> status \<times> world"

fun walkDir :: "nat \<Rightarrow> WalkDirFunc \<Rightarrow> string \<Rightarrow> DirEntry \<Rightarrow> world \<Rightarrow> (status \<times> world) option"
and walkEntries :: "nat \<Rightarrow> WalkDirFunc \<Rightarrow> string \<Rightarrow> DirEntry list \<Rightarrow> world \<Rightarrow> (status \<times> world) option" where
  "walkDir 0 fn path d w = None"
| "walkDir (Suc k) fn path d w =
     (case fn path (Some d) None w of
        (Nil, w1) \<Rightarrow>
          if \<not> d_IsDir d then Some (Nil, w1)
          else (case os_ReadDir (fsys w1) path of
                  Inl err \<Rightarrow> Some (fn path (Some d) (Some err) w1)
                | Inr dirs \<Rightarrow> walkEntries k fn path dirs w1)
      | (st, w1) \<Rightarrow> Some (st, w1))"
| "walkEntries k fn path [] w = Some (Nil, w)"
| "walkEntries k fn path (d1 # ds) w =
     (case walkDir k fn (filepath_Join path (d_Name d1)) d1 w of
        None \<Rightarrow> None
      | Some (Nil, w1) \<Rightarrow> walkEntries k fn path ds w1
      | Some (st, w1) \<Rightarrow> Some (st, w1))"

definition WalkDir :: "nat \<Rightarrow> string \<Rightarrow> WalkDirFunc \<Rightarrow> world \<Rightarrow> (status \<times> world) option" where
  "WalkDir fuel root_path fn w =
     (case os_Lstat (fsys w) root_path of
        Inl err \<Rightarrow> Some (fn root_path None (Some err) w)
      | Inr info \<Rightarrow>
          walkDir fuel fn root_path \<lparr>d_Name = filepath_Base root_path, d_IsDir = IsDir info\<rparr> w)"

definition ent_Info :: "DirEntry option \<Rightarrow> string \<Rightarrow> filesys \<Rightarrow> (error + FileInfo) option" where
  "ent_Info ent path fs = (case ent of None \<Rightarrow> None | Some d \<Rightarrow> Some (os_Lstat fs path))"

subsection \<open>clean (lines 179 to 234)\<close>

text \<open>
  The function \<open>clean\<close> passes to \<open>WalkDir\<close>. When \<open>os.Stat\<close> of the path in the
  source tree fails, \<open>srcInfo\<close> and \<open>srcStat\<close> are nil: the condition of the directory
  branch calls \<open>srcInfo.IsDir()\<close> and the condition of the file branch reads
  \<open>srcStat.Ino\<close> unless the error is a not-exist error (or, in the file branch, the
  extension is \<open>.html\<close>, which decides the conjunction first). The results of
  \<open>os.RemoveAll\<close> are dropped.
\<close>

text \<open>The path in the source tree for a path of the destination tree (\<open>eqPath\<close>): the
  root is replaced, and for a file with the extension \<open>.html\<close> the extension is replaced
  by the builder's.\<close>

definition clean_eqPath :: "Site \<Rightarrow> string \<Rightarrow> string" where
  "clean_eqPath site path = filepath_Join (SrcRoot site) (TrimPrefix path (DstRoot site))"

definition clean_eqPath_file :: "Config \<Rightarrow> Site \<Rightarrow> string \<Rightarrow> string" where
  "clean_eqPath_file config site path =
     (if filepath_Ext path = ''.html''
      then TrimSuffix (clean_eqPath site path) ''.html'' @ Ext (Builder config)
      else clean_eqPath site path)"

definition clean_fn :: "Config \<Rightarrow> Site \<Rightarrow> WalkDirFunc" where
  "clean_fn config site path ent err w =
     (case err of
        Some e \<Rightarrow> (Failed e, w)
      | None \<Rightarrow>
          if path = DstRoot site then (Nil, w)
          else (case ent_Info ent path (fsys w) of
                  None \<Rightarrow> (Panicked, w)
                | Some (Inl e) \<Rightarrow> (Failed e, w)
                | Some (Inr dstInfo) \<Rightarrow>
                    if IsDir dstInfo then
                      (let eqPath = clean_eqPath site path
                       in case os_Stat (fsys w) eqPath of
                            Inl e \<Rightarrow>
                              if is_not_exist e then
                                (Nil, emit (RemovedTree path)
                                        (w\<lparr>fsys := snd (os_RemoveAll (fsys w) path)\<rparr>))
                              else (Panicked, w)
                          | Inr srcInfo \<Rightarrow>
                              if \<not> IsDir srcInfo then
                                (Nil, emit (RemovedTree path)
                                        (w\<lparr>fsys := snd (os_RemoveAll (fsys w) path)\<rparr>))
                              else (Nil, w))
                    else
                      (let ext = filepath_Ext path;
                           eqPath = clean_eqPath_file config site path
                       in case os_Stat (fsys w) eqPath of
                            Inr srcInfo \<Rightarrow>
                              (case Sys srcInfo of
                                 None \<Rightarrow> (Failed NotSyscall, w)
                               | Some srcStat \<Rightarrow>
                                   (case Sys dstInfo of
                                      None \<Rightarrow> (Failed NotSyscall, w)
                                    | Some dstStat \<Rightarrow>
                                        if ext \<noteq> ''.html'' \<and> Ino srcStat \<noteq> Ino dstStat then
                                          (Nil, emit (Removed path)
                                                  (w\<lparr>fsys := snd (os_RemoveAll (fsys w) path)\<rparr>))
                                        else (Nil, w)))
                          | Inl e \<Rightarrow>
                              if is_not_exist e then
                                (Nil, emit (Removed path)
                                        (w\<lparr>fsys := snd (os_RemoveAll (fsys w) path)\<rparr>))
                              else if ext \<noteq> ''.html'' then (Panicked, w)
                              else (Nil, w))))"

definition clean :: "nat \<Rightarrow> Config \<Rightarrow> Site \<Rightarrow> world \<Rightarrow> (status \<times> world) option" where
  "clean fuel config site w = WalkDir fuel (DstRoot site) (clean_fn config site) w"

subsection \<open>build (lines 69 to 137)\<close>

text \<open>
  The function \<open>build\<close> passes to \<open>WalkDir\<close>. In both file branches an \<open>os.Stat\<close> of
  the destination path that fails with another error than a not-exist error takes neither
  arm of the \<open>if\<close>/\<open>else if\<close>, and the function returns nil.
\<close>

text \<open>The path in the destination tree for a path of the source tree (\<open>eqPath\<close>), and
  the path of the built document of a content file.\<close>

definition build_eqPath :: "Site \<Rightarrow> string \<Rightarrow> string" where
  "build_eqPath site path = filepath_Join (DstRoot site) (TrimPrefix path (SrcRoot site))"

definition build_eqPath_html :: "Site \<Rightarrow> string \<Rightarrow> string" where
  "build_eqPath_html site path =
     TrimSuffix (build_eqPath site path) (filepath_Ext (build_eqPath site path)) @ ''.html''"

definition build_fn :: "host \<Rightarrow> Config \<Rightarrow> Site \<Rightarrow> WalkDirFunc" where
  "build_fn h config site path ent err w =
     (case err of
        Some e \<Rightarrow> (Failed e, w)
      | None \<Rightarrow>
          if path = SrcRoot site then (Nil, w)
          else (case ent_Info ent path (fsys w) of
                  None \<Rightarrow> (Panicked, w)
                | Some (Inl e) \<Rightarrow> (Failed e, w)
                | Some (Inr srcInfo0) \<Rightarrow>
                    if IsDir srcInfo0 then
                      (let eqPath = build_eqPath site path
                       in case os_MkdirAll (fsys w) eqPath of
                            (Some e, fs') \<Rightarrow> (Failed e, w\<lparr>fsys := fs'\<rparr>)
                          | (None, fs') \<Rightarrow> (Nil, w\<lparr>fsys := fs'\<rparr>))
                    else
                      (case os_Stat (fsys w) path of
                         Inl e \<Rightarrow> (Failed e, w)
                       | Inr srcInfo \<Rightarrow>
                           (let eqPath0 = build_eqPath site path;
                                ext = filepath_Ext eqPath0
                            in if ext = Ext (Builder config) then
                                 (let eqPath = build_eqPath_html site path
                                  in case os_Stat (fsys w) eqPath of
                                       Inl e \<Rightarrow>
                                         if is_not_exist e then
                                           (case buildPage h config site path eqPath w of
                                              (Nil, w1) \<Rightarrow> (Nil, emit (Created eqPath) w1)
                                            | (st, w1) \<Rightarrow> (st, w1))
                                         else (Nil, w)
                                     | Inr dstInfo \<Rightarrow>
                                         if ModTime dstInfo < ModTime srcInfo then
                                           (case buildPage h config site path eqPath w of
                                              (Nil, w1) \<Rightarrow> (Nil, emit (Updated eqPath) w1)
                                            | (st, w1) \<Rightarrow> (st, w1))
                                         else (Nil, w))
                               else
                                 (case os_Stat (fsys w) eqPath0 of
                                    Inl e \<Rightarrow>
                                      if is_not_exist e then
                                        (case os_Link (fsys w) path eqPath0 of
                                           (Some e1, fs') \<Rightarrow> (Failed e1, w\<lparr>fsys := fs'\<rparr>)
                                         | (None, fs') \<Rightarrow>
                                             (Nil, emit (Created eqPath0) (w\<lparr>fsys := fs'\<rparr>)))
                                      else (Nil, w)
                                  | Inr dstInfo \<Rightarrow>
                                      if ModTime dstInfo < ModTime srcInfo then
                                        (case os_Remove (fsys w) eqPath0 of
                                           (Some e1, fs') \<Rightarrow> (Failed e1, w\<lparr>fsys := fs'\<rparr>)
                                         | (None, fs') \<Rightarrow>
                                             (case os_Link fs' path eqPath0 of
                                                (Some e2, fs'') \<Rightarrow> (Failed e2, w\<lparr>fsys := fs''\<rparr>)
                                              | (None, fs'') \<Rightarrow>
                                                  (Nil, emit (Updated eqPath0) (w\<lparr>fsys := fs''\<rparr>))))
                                      else (Nil, w))))))"

text \<open>\<open>build\<close> calls \<open>clean\<close> as a statement: the error it returns is dropped (line 70),
  a panic is not. Then it walks the source tree.\<close>

definition build :: "nat \<Rightarrow> host \<Rightarrow> Config \<Rightarrow> Site \<Rightarrow> world \<Rightarrow> (status \<times> world) option" where
  "build fuel h config site w =
     (case clean fuel config site w of
        None \<Rightarrow> None
      | Some (Panicked, w1) \<Rightarrow> Some (Panicked, w1)
      | Some (st, w1) \<Rightarrow> WalkDir fuel (SrcRoot site) (build_fn h config site) w1)"

subsection \<open>main (lines 50 to 54)\<close>

text \<open>The loop over the sites: the first site whose \<open>build\<close> returns an error ends the
  process (\<open>log.Fatalf\<close>), and the sites after it are not built.\<close>

datatype exit = Finished | Fatal string error | Crashed

fun build_sites :: "nat \<Rightarrow> host \<Rightarrow> Config \<Rightarrow> Site list \<Rightarrow> world \<Rightarrow> (exit \<times> world) option" where
  "build_sites fuel h config [] w = Some (Finished, w)"
| "build_sites fuel h config (site # sites) w =
     (case build fuel h config site w of
        None \<Rightarrow> None
      | Some (Nil, w1) \<Rightarrow> build_sites fuel h config sites w1
      | Some (Failed e, w1) \<Rightarrow> Some (Fatal (SrcRoot site) e, w1)
      | Some (Panicked, w1) \<Rightarrow> Some (Crashed, w1))"

definition main :: "nat \<Rightarrow> host \<Rightarrow> Config \<Rightarrow> world \<Rightarrow> (exit \<times> world) option" where
  "main fuel h config w = build_sites fuel h config (Sites config) w"

subsection \<open>Notions of the specification\<close>

text \<open>The staleness policy: the destination path is absent, or the source was modified
  strictly after the destination.\<close>

definition stale :: "filesys \<Rightarrow> FileInfo \<Rightarrow> string \<Rightarrow> bool" where
  "stale fs srcInfo dst =
     (case os_Stat fs dst of
        Inl e \<Rightarrow> is_not_exist e
      | Inr dstInfo \<Rightarrow> ModTime dstInfo < ModTime srcInfo)"

text \<open>The line \<open>build\<close> prints for a path it made: \<open>+\<close> when the path was absent
  (its stat failed), \<open>^\<close> when it was there.\<close>

definition build_event :: "filesys \<Rightarrow> string \<Rightarrow> event" where
  "build_event fs dst = (case os_Stat fs dst of Inl e \<Rightarrow> Created dst | Inr dstInfo \<Rightarrow> Updated dst)"

text \<open>What a command block is replaced by: the description of the error when the child
  fails, its standard output otherwise; and the expansion of a template cut into segments.\<close>

definition block_output ::
  "host \<Rightarrow> Config \<Rightarrow> Site \<Rightarrow> string \<Rightarrow> string \<Rightarrow> filesys \<Rightarrow> string list \<Rightarrow> string" where
  "block_output h config site srcPath dstPath fs argv =
     (case run_cmd h fs argv (block_env h config site srcPath dstPath) of
        Inl err \<Rightarrow> err
      | Inr out \<Rightarrow> out)"

fun expand_segment ::
  "host \<Rightarrow> Config \<Rightarrow> Site \<Rightarrow> string \<Rightarrow> string \<Rightarrow> filesys \<Rightarrow> segment \<Rightarrow> string" where
  "expand_segment h config site srcPath dstPath fs (Text t) = t"
| "expand_segment h config site srcPath dstPath fs (Block m) =
     (case command_argv config (FindStringSubmatch m ! 1) of
        None \<Rightarrow> []
      | Some argv \<Rightarrow> block_output h config site srcPath dstPath fs argv)"

definition expand_segments ::
  "host \<Rightarrow> Config \<Rightarrow> Site \<Rightarrow> string \<Rightarrow> string \<Rightarrow> filesys \<Rightarrow> segment list \<Rightarrow> string" where
  "expand_segments h config site srcPath dstPath fs segs =
     concat (map (expand_segment h config site srcPath dstPath fs) segs)"

fun printed_segment :: "Config \<Rightarrow> segment \<Rightarrow> event list" where
  "printed_segment config (Text t) = []"
| "printed_segment config (Block m) = [Printed (cmdArgs config (FindStringSubmatch m ! 1))]"

text \<open>A text that starts a line opens a block: after white space comes the opening
  marker. \<open>no_open bol pre t\<close>: no line of \<open>pre\<close> opens a block in the text \<open>pre @ t\<close>
  (\<open>bol\<close> says whether \<open>pre\<close> starts a line), and \<open>ends_line bol pre\<close>: the text after
  \<open>pre\<close> starts a line.\<close>

definition opens :: "string \<Rightarrow> bool" where
  "opens s = HasPrefix (dropWhile is_space s) ''%{''"

fun no_open :: "bool \<Rightarrow> string \<Rightarrow> string \<Rightarrow> bool" where
  "no_open bol [] t = True"
| "no_open bol (c # cs) t = ((\<not> bol \<or> \<not> opens (c # cs @ t)) \<and> no_open (c = newline) cs t)"

definition ends_line :: "bool \<Rightarrow> string \<Rightarrow> bool" where
  "ends_line bol pre = (if pre = [] then bol else last pre = newline)"

text \<open>A line of the text starts with the closing marker.\<close>

fun has_close :: "bool \<Rightarrow> string \<Rightarrow> bool" where
  "has_close bol [] = False"
| "has_close bol (c # cs) = ((bol \<and> HasPrefix (c # cs) ''}%'') \<or> has_close (c = newline) cs)"

text \<open>What is observed of a run: how it ended, what it printed, and the tree it left.\<close>

fun observe :: "(status \<times> world) option \<Rightarrow> (status \<times> event list \<times> node) option" where
  "observe None = None"
| "observe (Some (st, w)) = Some (st, stdout w, root (fsys w))"

text \<open>The stat of a path in the state a run left.\<close>

fun stat_after :: "(status \<times> world) option \<Rightarrow> string \<Rightarrow> (error + FileInfo) option" where
  "stat_after None path = None"
| "stat_after (Some (st, w)) path = Some (os_Stat (fsys w) path)"

subsection \<open>Example sites and trees\<close>

definition site0 :: Site where
  "site0 = \<lparr>Name = ''example.com'', SrcRoot = ''src'', DstRoot = ''dst'',
            TplPath = ''tpl/page.tpl'', Env = [''test=foobar'']\<rparr>"

definition config0 :: Config where
  "config0 = \<lparr>Sites = [site0], Builder = \<lparr>Ext = ''.md'', Bin = ''pandoc''\<rparr>,
              RunCmd = [''bash'', ''-c'']\<rparr>"

text \<open>A source root that is a regular file.\<close>

definition site_file_root :: Site where
  "site_file_root = site0\<lparr>SrcRoot := ''tpl/page.tpl''\<rparr>"

text \<open>A host whose shell fails on the command \<open>false\<close> and prints \<open>hi\<close> otherwise.\<close>

definition host0 :: host where
  "host0 = \<lparr>environ = [''HOME=/root''],
            run_cmd = (\<lambda>fs argv env.
              if last argv = ''\<newline>false\<newline>'' then Inl ''exit status 1'' else Inr ''hi\<newline>'')\<rparr>"

definition tpl0 :: string where
  "tpl0 = ''<h1>\<newline>%{\<newline>false\<newline>}%\<newline></h1>\<newline>%{\<newline>echo hi\<newline>}%\<newline>''"

text \<open>A template with white space before an opening marker, and with an indented closing
  marker and an opening marker inside a block.\<close>

definition tpl1 :: string where
  "tpl1 = ''<h1>\<newline>%{\<newline>false\<newline>}%\<newline></h1>\<newline>  %{ echo hi\<newline>  }%\<newline>%{\<newline>}% tail\<newline>''"

definition inodes0 :: "(nat \<times> inode) list" where
  "inodes0 = [(10, \<lparr>mtime = 2, data = ''PNG''\<rparr>), (11, \<lparr>mtime = 7, data = ''# Hello''\<rparr>),
              (20, \<lparr>mtime = 5, data = ''<h1>old</h1>''\<rparr>), (30, \<lparr>mtime = 1, data = tpl0\<rparr>)]"

text \<open>A destination tree with an up-to-date link (\<open>keep.png\<close>), a built page older than
  its source (\<open>index.html\<close>), and a directory and a file that the source tree does not
  have (\<open>old\<close>, \<open>zzz.png\<close>).\<close>

definition fs_stale :: filesys where
  "fs_stale =
     \<lparr>root = Dir 0
        [(''src'', Dir 1 [(''index.md'', File 11), (''keep.png'', File 10)]),
         (''dst'', Dir 2 [(''index.html'', File 20), (''keep.png'', File 10),
                         (''old'', Dir 3 [(''x.png'', File 21)]), (''zzz.png'', File 22)]),
         (''tpl'', Dir 4 [(''page.tpl'', File 30)])],
      inodes = inodes0, next_ino = 40, clock = 9\<rparr>"

definition w_stale :: world where
  "w_stale = \<lparr>fsys = fs_stale, stdout = []\<rparr>"

text \<open>A first run: the destination root does not exist yet.\<close>

definition fs_first :: filesys where
  "fs_first =
     \<lparr>root = Dir 0
        [(''src'', Dir 1 [(''posts'', Dir 5 [(''a.md'', File 11)])]),
         (''tpl'', Dir 4 [(''page.tpl'', File 30)])],
      inodes = inodes0, next_ino = 40, clock = 9\<rparr>"

definition fs_first_flat :: filesys where
  "fs_first_flat =
     \<lparr>root = Dir 0
        [(''src'', Dir 1 [(''index.md'', File 11)]),
         (''tpl'', Dir 4 [(''page.tpl'', File 30)])],
      inodes = inodes0, next_ino = 40, clock = 9\<rparr>"

text \<open>The destination root is a regular file.\<close>

definition fs_dst_file :: filesys where
  "fs_dst_file =
     \<lparr>root = Dir 0
        [(''src'', Dir 1 [(''index.md'', File 11)]),
         (''dst'', File 20),
         (''tpl'', Dir 4 [(''page.tpl'', File 30)])],
      inodes = inodes0, next_ino = 40, clock = 9\<rparr>"

text \<open>A source tree with a resource whose extension is \<open>.html\<close>, and an empty
  destination tree.\<close>

definition fs_html_resource :: filesys where
  "fs_html_resource =
     \<lparr>root = Dir 0
        [(''src'', Dir 1 [(''page.html'', File 10)]),
         (''dst'', Dir 2 []),
         (''tpl'', Dir 4 [(''page.tpl'', File 30)])],
      inodes = inodes0, next_ino = 40, clock = 9\<rparr>"

text \<open>Roots written with a leading \<open>./\<close>, and a tree whose destination holds one
  up-to-date hard link.\<close>

definition site_dot_roots :: Site where
  "site_dot_roots = site0\<lparr>SrcRoot := ''./src'', DstRoot := ''./dst''\<rparr>"

definition fs_linked :: filesys where
  "fs_linked =
     \<lparr>root = Dir 0
        [(''src'', Dir 1 [(''keep.png'', File 10)]),
         (''dst'', Dir 2 [(''keep.png'', File 10)]),
         (''tpl'', Dir 4 [(''page.tpl'', File 30)])],
      inodes = inodes0, next_ino = 40, clock = 9\<rparr>"

definition w_linked :: world where
  "w_linked = \<lparr>fsys = fs_linked, stdout = []\<rparr>"

definition w_first :: world where
  "w_first = \<lparr>fsys = fs_first, stdout = []\<rparr>"

definition w_first_flat :: world where
  "w_first_flat = \<lparr>fsys = fs_first_flat, stdout = []\<rparr>"

definition w_dst_file :: world where
  "w_dst_file = \<lparr>fsys = fs_dst_file, stdout = []\<rparr>"

definition w_html_resource :: world where
  "w_html_resource = \<lparr>fsys = fs_html_resource, stdout = []\<rparr>"

text \<open>The state after one pass over \<open>fs_html_resource\<close>: \<open>page.html\<close> is linked into
  the destination tree.\<close>

definition w_html_linked :: world where
  "w_html_linked =
     \<lparr>fsys =
        \<lparr>root = Dir 0
           [(''dst'', Dir 2 [(''page.html'', File 10)]),
            (''src'', Dir 1 [(''page.html'', File 10)]),
            (''tpl'', Dir 4 [(''page.tpl'', File 30)])],
         inodes = (2, \<lparr>mtime = 9, data = []\<rparr>) # inodes0, next_ino = 40, clock = 10\<rparr>,
      stdout = [Created ''dst/page.html'']\<rparr>"

section \<open>Properties\<close>

subsection \<open>The argument vector of a command block\<close>

lemma command_argv_shape:
  "RunCmd config \<noteq> [] \<Longrightarrow>
   command_argv config body = Some [hd (RunCmd config), last (RunCmd config), body]"
proof -
  assume ne: "RunCmd config \<noteq> []"
  then obtain r rs where R: "RunCmd config = r # rs" by (cases "RunCmd config") auto
  have d: "drop (length (RunCmd config) - 1) (RunCmd config @ [body]) = [last (RunCmd config), body]"
    using ne by (cases "RunCmd config" rule: rev_cases) auto
  show ?thesis
    using ne d R by (simp add: command_argv_def cmdArgs_def exec_Command_def)
qed

lemma command_argv_pair:
  "RunCmd config = [a, b] \<Longrightarrow> command_argv config body = Some (RunCmd config @ [body])"
  by (simp add: command_argv_shape)

lemma command_argv_Some: "RunCmd config \<noteq> [] \<Longrightarrow> \<exists>argv. command_argv config body = Some argv"
  by (simp add: command_argv_def)

text \<open>
  C3 (fails on the code): the child's argument vector is the whole \<open>RunCmd\<close> followed
  by the command body. By \<open>command_argv_shape\<close> the vector is the first element of
  \<open>RunCmd\<close>, its last element and the body, which is \<open>RunCmd\<close> followed by the body
  for a \<open>RunCmd\<close> of two elements only. With \<open>RunCmd = [env, bash, -c]\<close> the child is
  started as \<open>env -c 'echo hi'\<close>: \<open>bash\<close> is lost.
\<close>

theorem command_argv_drops_middle:
  "command_argv (config0\<lparr>RunCmd := [''env'', ''bash'', ''-c'']\<rparr>) ''echo hi''
     = Some [''env'', ''-c'', ''echo hi''] \<and>
   command_argv (config0\<lparr>RunCmd := [''env'', ''bash'', ''-c'']\<rparr>) ''echo hi''
     \<noteq> Some (RunCmd (config0\<lparr>RunCmd := [''env'', ''bash'', ''-c'']\<rparr>) @ [''echo hi''])"
  by (simp add: command_argv_shape)

subsection \<open>The decisions of clean\<close>

lemma stat_sys: "os_Stat fs p = Inr info \<Longrightarrow> \<exists>i. Sys info = Some \<lparr>Ino = i\<rparr>"
  by (auto simp: os_Stat_def info_of_def split: if_splits sum.splits)

text \<open>
  C10: the function of \<open>clean\<close> panics on an entry exactly when \<open>os.Stat\<close> of the path
  in the source tree fails with an error that is not a not-exist error and the entry is a
  directory (\<open>srcInfo.IsDir()\<close> on nil) or a file without the extension \<open>.html\<close>
  (\<open>srcStat.Ino\<close> on nil). So the decision returns (nil or an error) whenever the stat
  succeeds or fails with a not-exist error, and for a file with the extension \<open>.html\<close>.
\<close>

theorem clean_fn_panics_iff:
  assumes "path \<noteq> DstRoot site" and "os_Lstat (fsys w) path = Inr dstInfo"
  shows "fst (clean_fn config site path (Some ent) None w) = Panicked \<longleftrightarrow>
           (\<exists>e. os_Stat (fsys w)
                   (if IsDir dstInfo then clean_eqPath site path
                    else clean_eqPath_file config site path) = Inl e \<and>
                \<not> is_not_exist e \<and>
                (IsDir dstInfo \<or> filepath_Ext path \<noteq> ''.html''))"
proof -
  obtain j where j: "Sys dstInfo = Some \<lparr>Ino = j\<rparr>"
    using assms(2) stat_sys [of "fsys w" path dstInfo] by (auto simp: os_Lstat_def)
  show ?thesis
    using assms j
    by (auto simp: clean_fn_def ent_Info_def Let_def split: sum.splits option.splits dest: stat_sys)
qed

theorem clean_fn_panics_iff_witness:
  "fst (clean_fn config0 site_file_root ''dst/keep.png''
          (Some \<lparr>d_Name = ''keep.png'', d_IsDir = False\<rparr>) None w_stale) = Panicked \<and>
   fst (clean_fn config0 site_file_root ''dst/old''
          (Some \<lparr>d_Name = ''old'', d_IsDir = True\<rparr>) None w_stale) = Panicked"
proof -
  have h1: "''dst/keep.png'' \<noteq> DstRoot site_file_root" "''dst/old'' \<noteq> DstRoot site_file_root"
    by code_simp+
  have h2: "os_Lstat (fsys w_stale) ''dst/keep.png'' = Inr \<lparr>IsDir = False, ModTime = 2, Sys = Some \<lparr>Ino = 10\<rparr>\<rparr>"
    by code_simp
  have h3: "os_Lstat (fsys w_stale) ''dst/old'' = Inr \<lparr>IsDir = True, ModTime = 0, Sys = Some \<lparr>Ino = 3\<rparr>\<rparr>"
    by code_simp
  have c1: "os_Stat (fsys w_stale) (clean_eqPath_file config0 site_file_root ''dst/keep.png'')
              = Inl (PathError ENOTDIR ''tpl/page.tpl/keep.png'')"
    by code_simp
  have c2: "os_Stat (fsys w_stale) (clean_eqPath site_file_root ''dst/old'')
              = Inl (PathError ENOTDIR ''tpl/page.tpl/old'')"
    by code_simp
  have e: "filepath_Ext ''dst/keep.png'' \<noteq> ''.html''"
    by code_simp
  from clean_fn_panics_iff [OF h1(1) h2, of config0 "\<lparr>d_Name = ''keep.png'', d_IsDir = False\<rparr>"] c1 e
  have p1: "fst (clean_fn config0 site_file_root ''dst/keep.png''
          (Some \<lparr>d_Name = ''keep.png'', d_IsDir = False\<rparr>) None w_stale) = Panicked"
    by simp
  from clean_fn_panics_iff [OF h1(2) h3, of config0 "\<lparr>d_Name = ''old'', d_IsDir = True\<rparr>"] c2
  have p2: "fst (clean_fn config0 site_file_root ''dst/old''
          (Some \<lparr>d_Name = ''old'', d_IsDir = True\<rparr>) None w_stale) = Panicked"
    by simp
  from p1 p2 show ?thesis by simp
qed


subsection \<open>Command blocks and their expansion\<close>

lemma match_close_decomp:
  "match_close bol s = Some (body, rest) \<Longrightarrow> s = body @ ''}%'' @ rest"
proof (induction s arbitrary: bol body)
  case Nil
  then show ?case by simp
next
  case (Cons c cs)
  show ?case
  proof (cases "bol \<and> HasPrefix (c # cs) ''}%''")
    case True
    with Cons.prems have "body = []" "rest = drop 2 (c # cs)" by auto
    moreover from True have "take 2 (c # cs) = ''}%''" by (simp add: HasPrefix_def)
    ultimately show ?thesis
      using append_take_drop_id [of 2 "c # cs"] by simp
  next
    case False
    with Cons.prems obtain b where b: "match_close (c = newline) cs = Some (b, rest)" "body = c # b"
      by (auto split: option.splits)
    from Cons.IH [OF b(1)] b(2) show ?thesis by simp
  qed
qed

lemma match_close_self:
  "match_close bol s = Some (body, rest) \<Longrightarrow> match_close bol (body @ ''}%'') = Some (body, [])"
proof (induction s arbitrary: bol body)
  case Nil
  then show ?case by simp
next
  case (Cons c cs)
  show ?case
  proof (cases "bol \<and> HasPrefix (c # cs) ''}%''")
    case True
    with Cons.prems have "body = []" by auto
    with True show ?thesis by (simp add: HasPrefix_def)
  next
    case False
    with Cons.prems obtain b where b: "match_close (c = newline) cs = Some (b, rest)" "body = c # b"
      by (auto split: option.splits)
    have cs: "cs = b @ ''}%'' @ rest" using match_close_decomp [OF b(1)] .
    have "\<not> (bol \<and> HasPrefix (c # b @ ''}%'') ''}%'')"
    proof
      assume a: "bol \<and> HasPrefix (c # b @ ''}%'') ''}%''"
      then have c: "c = CHR ''}''" by (simp add: HasPrefix_def)
      show False
      proof (cases b)
        case Nil
        with b(1) have "c = newline" by (cases cs) (auto split: if_splits option.splits)
        with c show False by (simp add: newline_def)
      next
        case (Cons x xs)
        with a have "x = CHR ''%''" by (simp add: HasPrefix_def)
        with Cons cs c a False show False by (simp add: HasPrefix_def)
      qed
    qed
    with Cons.IH [OF b(1)] b(2) show ?thesis by simp
  qed
qed

lemma takeWhile_space_marker:
  "takeWhile is_space (takeWhile is_space s @ CHR ''%'' # t) = takeWhile is_space s"
  "dropWhile is_space (takeWhile is_space s @ CHR ''%'' # t) = CHR ''%'' # t"
proof -
  have n: "\<not> is_space CHR ''%''" by (simp add: is_space_def)
  have a: "\<forall>x\<in>set (takeWhile is_space s). is_space x" by (auto dest: set_takeWhileD)
  show "takeWhile is_space (takeWhile is_space s @ CHR ''%'' # t) = takeWhile is_space s"
    using a n by (simp add: takeWhile_append2)
  show "dropWhile is_space (takeWhile is_space s @ CHR ''%'' # t) = CHR ''%'' # t"
    using a n by (simp add: dropWhile_append2)
qed

lemma match_at_self:
  assumes "match_at s = Some (m, body, rest)"
  shows "match_at m = Some (m, body, [])"
proof -
  let ?ws = "takeWhile is_space s"
  from assms have p: "HasPrefix (dropWhile is_space s) ''%{''"
    and c: "match_close False (drop 2 (dropWhile is_space s)) = Some (body, rest)"
    and m: "m = ?ws @ ''%{'' @ body @ ''}%''"
    by (auto simp: match_at_def Let_def split: if_splits option.splits)
  from match_close_self [OF c] show ?thesis
    unfolding m by (simp add: match_at_def takeWhile_space_marker HasPrefix_def)
qed

lemma match_at_submatch:
  assumes "match_at s = Some (m, body, rest)"
  shows "FindStringSubmatch m = [m, body]"
proof -
  from assms have "m \<noteq> []" by (auto simp: match_at_def Let_def split: if_splits option.splits)
  then obtain c cs where "m = c # cs" by (cases m) auto
  with match_at_self [OF assms] show ?thesis
    by (simp add: FindStringSubmatch_def try_match_def)
qed

lemma segments_empty: "try_match bol [] = None \<Longrightarrow> segments bol [] = []"
  by (subst segments.simps) simp

lemma segments_text:
  "try_match bol (c # cs) = None \<Longrightarrow> segments bol (c # cs) = Text [c] # segments (c = newline) cs"
  by (subst segments.simps) simp

lemma segments_block:
  "try_match bol s = Some (m, body, rest) \<Longrightarrow> segments bol s = Block m # segments False rest"
  by (subst segments.simps) simp


lemma segments_blocks:
  "Block m \<in> set (segments bol s) \<Longrightarrow> \<exists>body. FindStringSubmatch m = [m, body]"
proof (induction bol s rule: segments.induct)
  case (1 bol s)
  show ?case
  proof (cases "try_match bol s")
    case None
    show ?thesis
    proof (cases s)
      case Nil
      with None "1.prems" show ?thesis by (simp add: segments_empty)
    next
      case (Cons c cs)
      with None "1.prems" have "Block m \<in> set (segments (c = newline) cs)"
        by (simp add: segments_text)
      with "1.IH"(1) [OF None Cons] show ?thesis by simp
    qed
  next
    case (Some r)
    obtain m' body rest where r: "r = (m', body, rest)" by (cases r) auto
    from Some r have ma: "match_at s = Some (m', body, rest)"
      by (auto simp: try_match_def split: if_splits)
    from "1.prems" Some r have "m = m' \<or> Block m \<in> set (segments False rest)"
      by (auto simp: segments_block)
    then show ?thesis
    proof
      assume "m = m'"
      with match_at_submatch [OF ma] show ?thesis by blast
    next
      assume "Block m \<in> set (segments False rest)"
      with "1.IH"(2) [OF Some r [symmetric] refl] show ?thesis by blast
    qed
  qed
qed

lemma block_fn_run:
  assumes "RunCmd config \<noteq> []" and "FindStringSubmatch m = [m, body]"
  shows "block_fn h config site src dst m w =
           (Some (expand_segment h config site src dst (fsys w) (Block m)),
            w\<lparr>stdout := stdout w @ printed_segment config (Block m)\<rparr>)"
proof -
  obtain argv where a: "command_argv config body = Some argv"
    using command_argv_Some [OF assms(1)] by blast
  show ?thesis
    using assms(2) a
    by (simp add: block_fn_def Let_def emit_def block_output_def split: sum.splits)
qed

lemma replace_segments_block_fn:
  assumes "RunCmd config \<noteq> []"
    and "\<And>m. Block m \<in> set segs \<Longrightarrow> \<exists>body. FindStringSubmatch m = [m, body]"
  shows "replace_segments (block_fn h config site src dst) segs w =
           (Some (expand_segments h config site src dst (fsys w) segs),
            w\<lparr>stdout := stdout w @ concat (map (printed_segment config) segs)\<rparr>)"
  using assms(2)
proof (induction segs arbitrary: w)
  case Nil
  then show ?case by (simp add: expand_segments_def)
next
  case (Cons seg segs)
  have ih: "replace_segments (block_fn h config site src dst) segs w' =
           (Some (expand_segments h config site src dst (fsys w') segs),
            w'\<lparr>stdout := stdout w' @ concat (map (printed_segment config) segs)\<rparr>)" for w'
    using Cons.IH Cons.prems by simp
  show ?case
  proof (cases seg)
    case (Text t)
    then show ?thesis by (simp add: ih expand_segments_def)
  next
    case (Block m)
    then obtain body where "FindStringSubmatch m = [m, body]"
      using Cons.prems [of m] by auto
    from block_fn_run [OF assms(1) this] Block show ?thesis
      by (simp add: ih expand_segments_def)
  qed
qed

lemma buildPage_expands:
  assumes "os_ReadFile (fsys w) (TplPath site) = Inr tpl" and "RunCmd config \<noteq> []"
  shows "buildPage h config site src dst w =
           (Nil, w\<lparr>stdout := stdout w @ concat (map (printed_segment config) (segments True tpl)),
                   fsys := snd (os_WriteFile (fsys w) dst
                            (expand_segments h config site src dst (fsys w) (segments True tpl)))\<rparr>)"
proof -
  have seg: "\<And>m. Block m \<in> set (segments True tpl) \<Longrightarrow> \<exists>body. FindStringSubmatch m = [m, body]"
    using segments_blocks by blast
  show ?thesis
    using assms(1) replace_segments_block_fn [OF assms(2) seg]
    by (simp add: buildPage_def ReplaceAllStringFunc_def)
qed


lemma block_fn_stdout: "\<exists>xs. stdout (snd (block_fn h config site src dst m w)) = stdout w @ xs"
  by (auto simp: block_fn_def Let_def emit_def split: option.splits sum.splits)

lemma replace_segments_stdout:
  "\<exists>xs. stdout (snd (replace_segments (block_fn h config site src dst) segs w)) = stdout w @ xs"
proof (induction segs arbitrary: w)
  case Nil
  then show ?case by simp
next
  case (Cons seg segs)
  show ?case
  proof (cases seg)
    case (Text t)
    obtain xs where "stdout (snd (replace_segments (block_fn h config site src dst) segs w)) = stdout w @ xs"
      using Cons.IH by blast
    with Text show ?thesis by (auto split: prod.splits option.splits)
  next
    case (Block m)
    obtain r w1 where b: "block_fn h config site src dst m w = (r, w1)"
      by (cases "block_fn h config site src dst m w") auto
    obtain xs where xs: "stdout w1 = stdout w @ xs"
      using block_fn_stdout [of h config site src dst m w] b by auto
    obtain ys where ys: "stdout (snd (replace_segments (block_fn h config site src dst) segs w1)) = stdout w1 @ ys"
      using Cons.IH by blast
    show ?thesis
      using Block b xs ys by (auto split: prod.splits option.splits)
  qed
qed

lemma buildPage_stdout:
  "\<exists>xs. stdout (snd (buildPage h config site src dst w)) = stdout w @ xs"
proof (cases "os_ReadFile (fsys w) (TplPath site)")
  case (Inl e)
  then show ?thesis by (simp add: buildPage_def)
next
  case (Inr tpl)
  obtain xs where "stdout (snd (replace_segments (block_fn h config site src dst) (segments True tpl) w)) = stdout w @ xs"
    using replace_segments_stdout by blast
  with Inr show ?thesis
    by (auto simp: buildPage_def ReplaceAllStringFunc_def split: prod.splits option.splits)
qed

subsection \<open>Writing a file and reading it back\<close>


lemma root_put_entry: "root (put_entry es v fs) = modify es v (root fs)"
  by (simp add: put_entry_def tick_def touch_dir_def stamp_def split: sum.splits node.splits)





subsection \<open>The decisions of build\<close>

text \<open>
  The decision on a content file: for a file of the source tree whose path in the
  destination tree has the builder's extension, the function of \<open>build\<close> calls
  \<open>buildPage\<close> for the path with the extension \<open>.html\<close> exactly when that path is
  stale; when it is not, the function returns nil and the state is as it was.
\<close>

lemma build_fn_content_file_decision:
  assumes "path \<noteq> SrcRoot site" and "os_Stat (fsys w) path = Inr srcInfo" and "\<not> IsDir srcInfo"
    and "filepath_Ext (build_eqPath site path) = Ext (Builder config)"
  shows "build_fn h config site path (Some ent) None w =
           (if stale (fsys w) srcInfo (build_eqPath_html site path) then
              (case buildPage h config site path (build_eqPath_html site path) w of
                 (Nil, w1) \<Rightarrow> (Nil, emit (build_event (fsys w) (build_eqPath_html site path)) w1)
               | (st, w1) \<Rightarrow> (st, w1))
            else (Nil, w)) \<and>
         (build_fn h config site path (Some ent) None w = (Nil, w) \<longleftrightarrow>
            \<not> stale (fsys w) srcInfo (build_eqPath_html site path))"
proof -
  let ?dst = "build_eqPath_html site path"
  have eq: "build_fn h config site path (Some ent) None w =
           (if stale (fsys w) srcInfo ?dst then
              (case buildPage h config site path ?dst w of
                 (Nil, w1) \<Rightarrow> (Nil, emit (build_event (fsys w) ?dst) w1)
               | (st, w1) \<Rightarrow> (st, w1))
            else (Nil, w))"
  proof (cases "os_Stat (fsys w) ?dst")
    case (Inl e)
    then have ev: "build_event (fsys w) ?dst = Created ?dst"
      by (simp add: build_event_def)
    show ?thesis
      unfolding ev using assms Inl
      by (simp add: build_fn_def ent_Info_def os_Lstat_def Let_def stale_def)
  next
    case (Inr dstInfo)
    then have ev: "build_event (fsys w) ?dst = Updated ?dst"
      by (simp add: build_event_def)
    show ?thesis
      unfolding ev using assms Inr
      by (simp add: build_fn_def ent_Info_def os_Lstat_def Let_def stale_def)
  qed
  obtain st w1 where b: "buildPage h config site path ?dst w = (st, w1)"
    by (cases "buildPage h config site path ?dst w") auto
  obtain xs where xs: "stdout w1 = stdout w @ xs"
    using buildPage_stdout [of h config site path ?dst w] b by auto
  have ne: "emit ev w1 \<noteq> w" for ev
    using xs by (auto simp: emit_def dest: arg_cong [where f = stdout])
  have "(case buildPage h config site path ?dst w of
           (Nil, w1) \<Rightarrow> (Nil, emit (build_event (fsys w) ?dst) w1)
         | (st, w1) \<Rightarrow> (st, w1)) \<noteq> (Nil, w)"
    using b ne by (cases st) auto
  with eq show ?thesis by auto
qed

lemma build_fn_stale_page:
  assumes "path \<noteq> SrcRoot site" and "os_Stat (fsys w) path = Inr srcInfo" and "\<not> IsDir srcInfo"
    and "filepath_Ext (build_eqPath site path) = Ext (Builder config)"
    and "stale (fsys w) srcInfo (build_eqPath_html site path)"
    and "os_ReadFile (fsys w) (TplPath site) = Inr tpl" and "RunCmd config \<noteq> []"
  shows "build_fn h config site path (Some ent) None w =
           (Nil, emit (build_event (fsys w) (build_eqPath_html site path))
                   (w\<lparr>stdout := stdout w @ concat (map (printed_segment config) (segments True tpl)),
                      fsys := snd (os_WriteFile (fsys w) (build_eqPath_html site path)
                               (expand_segments h config site path (build_eqPath_html site path)
                                  (fsys w) (segments True tpl)))\<rparr>))"
  using build_fn_content_file_decision [OF assms(1-4), of h ent] assms(5)
    buildPage_expands [OF assms(6,7), of h path "build_eqPath_html site path"]
  by simp

text \<open>
  C5 (fails on the code): for a content file the walk expands the template and writes
  the document at the destination path exactly when that path is stale. On a first run
  whose destination root does not exist, \<open>dst/index.html\<close> is stale (absent) and the
  template is expanded (both command lines are printed), but \<open>os.WriteFile\<close> fails and
  \<open>buildPage\<close> drops its error: the \<open>+\<close> line is printed, \<open>build\<close> returns nil, and
  after the run the destination path still does not exist. By \<open>build_fn_stale_page\<close>
  the state after a stale content file is always the one \<open>os.WriteFile\<close> left, written
  or not.
\<close>

theorem stale_page_not_written:
  "os_Stat (fsys w_first_flat) ''src/index.md'' =
     Inr \<lparr>IsDir = False, ModTime = 7, Sys = Some \<lparr>Ino = 11\<rparr>\<rparr> \<and>
   build_eqPath_html site0 ''src/index.md'' = ''dst/index.html'' \<and>
   stale (fsys w_first_flat) \<lparr>IsDir = False, ModTime = 7, Sys = Some \<lparr>Ino = 11\<rparr>\<rparr> ''dst/index.html'' \<and>
   observe (Some (build_fn host0 config0 site0 ''src/index.md''
                    (Some \<lparr>d_Name = ''index.md'', d_IsDir = False\<rparr>) None w_first_flat)) =
     Some (Nil,
           [Printed [''bash'', ''-c'', ''\<newline>false\<newline>''],
            Printed [''bash'', ''-c'', ''\<newline>echo hi\<newline>''],
            Created ''dst/index.html''],
           root fs_first_flat) \<and>
   stat_after (build 5 host0 config0 site0 w_first_flat) ''dst/index.html'' =
     Some (Inl (PathError ENOENT ''dst/index.html''))"
  by code_simp

subsection \<open>Recognising a command block\<close>

lemma match_close_first:
  "\<not> has_close bol body \<Longrightarrow>
   match_close bol (body @ ''\<newline>}%'' @ rest) = Some (body @ ''\<newline>'', rest)"
proof (induction body arbitrary: bol)
  case Nil
  then show ?case by (simp add: HasPrefix_def newline_def)
next
  case (Cons c cs)
  from Cons.prems have n: "\<not> (bol \<and> HasPrefix (c # cs) ''}%'')" and r: "\<not> has_close (c = newline) cs"
    by auto
  have "\<not> (bol \<and> HasPrefix (c # cs @ ''\<newline>}%'' @ rest) ''}%'')"
    using n by (cases cs) (auto simp: HasPrefix_def)
  with Cons.IH [OF r] show ?case by simp
qed

lemma match_at_block:
  assumes "\<forall>c\<in>set ws. is_space c" and "\<not> has_close False body"
  shows "match_at (ws @ ''%{'' @ body @ ''\<newline>}%'' @ rest) =
           Some (ws @ ''%{'' @ body @ ''\<newline>}%'', body @ ''\<newline>'', rest)"
proof -
  have n: "\<not> is_space CHR ''%''" by (simp add: is_space_def)
  have t: "takeWhile is_space (ws @ CHR ''%'' # s) = ws" for s
    using assms(1) n by (simp add: takeWhile_append2)
  have d: "dropWhile is_space (ws @ CHR ''%'' # s) = CHR ''%'' # s" for s
    using assms(1) n by (simp add: dropWhile_append2)
  from match_close_first [OF assms(2), of rest] show ?thesis
    by (simp add: match_at_def t d HasPrefix_def)
qed

lemma match_at_not_opens: "\<not> opens s \<Longrightarrow> match_at s = None"
  by (simp add: match_at_def opens_def Let_def)

lemma ends_line_Cons: "ends_line bol (c # cs) = ends_line (c = newline) cs"
  by (cases cs) (simp_all add: ends_line_def)

lemma segments_no_open:
  "no_open bol pre t \<Longrightarrow>
   segments bol (pre @ t) = map (\<lambda>c. Text [c]) pre @ segments (ends_line bol pre) t"
proof (induction pre arbitrary: bol)
  case Nil
  then show ?case by (simp add: ends_line_def)
next
  case (Cons c cs)
  from Cons.prems have n: "\<not> bol \<or> \<not> opens (c # cs @ t)" and r: "no_open (c = newline) cs t"
    by auto
  from n have "try_match bol (c # cs @ t) = None"
    by (auto simp: try_match_def match_at_not_opens)
  then have "segments bol (c # cs @ t) = Text [c] # segments (c = newline) (cs @ t)"
    by (rule segments_text)
  with Cons.IH [OF r] show ?case
    by (simp add: ends_line_Cons)
qed

text \<open>
  C6 (as amended): in a text that is scanned from the start of the document or from the
  end of the last block (\<open>bol\<close> tells which: the start of the document starts a line,
  the end of a block does not), let \<open>pre\<close> be a run of whole lines none of which opens a
  block, followed at the start of a line by white space \<open>ws\<close> (which may hold newlines),
  the opening marker, a text \<open>body\<close> none of whose lines starts with the closing
  marker, and a line that starts with the closing marker in its first column. Then
  \<open>pre\<close> stays plain text, what follows it up to the closing marker is one command
  block, the scan goes on after the closing marker, and the command of the block is the
  text from just after the opening marker to the start of the closing line. A line inside
  \<open>body\<close> that holds the opening marker, or the closing marker after white space,
  belongs to the body.
\<close>

theorem block_recognized:
  assumes "ends_line bol pre"
    and "no_open bol pre (ws @ ''%{'' @ body @ ''\<newline>}%'' @ rest)"
    and "\<forall>c\<in>set ws. is_space c"
    and "\<not> has_close False body"
  shows "segments bol (pre @ ws @ ''%{'' @ body @ ''\<newline>}%'' @ rest) =
           map (\<lambda>c. Text [c]) pre @ Block (ws @ ''%{'' @ body @ ''\<newline>}%'') # segments False rest \<and>
         FindStringSubmatch (ws @ ''%{'' @ body @ ''\<newline>}%'') =
           [ws @ ''%{'' @ body @ ''\<newline>}%'', body @ ''\<newline>'']"
proof -
  let ?t = "ws @ ''%{'' @ body @ ''\<newline>}%'' @ rest"
  have m: "match_at ?t = Some (ws @ ''%{'' @ body @ ''\<newline>}%'', body @ ''\<newline>'', rest)"
    using match_at_block [OF assms(3,4)] .
  then have "try_match True ?t = Some (ws @ ''%{'' @ body @ ''\<newline>}%'', body @ ''\<newline>'', rest)"
    by (simp add: try_match_def)
  from segments_block [OF this]
  have b: "segments True ?t = Block (ws @ ''%{'' @ body @ ''\<newline>}%'') # segments False rest" .
  from segments_no_open [OF assms(2)] assms(1)
  have "segments bol (pre @ ?t) = map (\<lambda>c. Text [c]) pre @ segments True ?t"
    by simp
  with b match_at_submatch [OF m] show ?thesis by simp
qed

theorem block_recognized_witness:
  "segments True tpl1 =
     [Text ''<'', Text ''h'', Text ''1'', Text ''>'', Text ''\<newline>'', Block ''%{\<newline>false\<newline>}%'']
       @ segments False ''\<newline></h1>\<newline>  %{ echo hi\<newline>  }%\<newline>%{\<newline>}% tail\<newline>'' \<and>
   segments False ''\<newline></h1>\<newline>  %{ echo hi\<newline>  }%\<newline>%{\<newline>}% tail\<newline>'' =
     [Text ''\<newline>'', Text ''<'', Text ''/'', Text ''h'', Text ''1'', Text ''>'', Text ''\<newline>'',
      Block ''  %{ echo hi\<newline>  }%\<newline>%{\<newline>}%'']
       @ segments False '' tail\<newline>'' \<and>
   FindStringSubmatch ''%{\<newline>false\<newline>}%'' = [''%{\<newline>false\<newline>}%'', ''\<newline>false\<newline>''] \<and>
   FindStringSubmatch ''  %{ echo hi\<newline>  }%\<newline>%{\<newline>}%'' =
     [''  %{ echo hi\<newline>  }%\<newline>%{\<newline>}%'', '' echo hi\<newline>  }%\<newline>%{\<newline>'']"
proof -
  let ?rest1 = "''\<newline></h1>\<newline>  %{ echo hi\<newline>  }%\<newline>%{\<newline>}% tail\<newline>''"
  have a1: "ends_line True ''<h1>\<newline>''"
    by code_simp
  have a2: "no_open True ''<h1>\<newline>'' ([] @ ''%{'' @ ''\<newline>false'' @ ''\<newline>}%'' @ ?rest1)"
    by code_simp
  have a3: "\<forall>c\<in>set []. is_space c"
    by simp
  have a4: "\<not> has_close False ''\<newline>false''"
    by code_simp
  have b1: "ends_line False ''\<newline></h1>\<newline>''"
    by code_simp
  have b2: "no_open False ''\<newline></h1>\<newline>''
              (''  '' @ ''%{'' @ '' echo hi\<newline>  }%\<newline>%{'' @ ''\<newline>}%'' @ '' tail\<newline>'')"
    by code_simp
  have b3: "\<forall>c\<in>set ''  ''. is_space c"
    by (simp add: is_space_def)
  have b4: "\<not> has_close False '' echo hi\<newline>  }%\<newline>%{''"
    by code_simp
  from block_recognized [OF a1 a2 a3 a4] block_recognized [OF b1 b2 b3 b4]
  show ?thesis by (simp add: tpl1_def)
qed

text \<open>
  C6 as the specification states it fails in three ways. A closing marker after leading
  white space does not close a block: in the first template the closing line is \<open>}%\<close>
  after two spaces, nothing matches, and every character stays plain text. The command is
  not the text strictly between the two delimiter lines: in the second template nothing
  stands between them and the command is the rest of the opening line. An opening line
  inside an open block opens nothing: in the third template the one block runs from the
  first opening marker, and the second opening line is part of its command.
\<close>

theorem delimiter_lines_counterexample:
  "FindStringSubmatch ''%{\<newline>date\<newline>  }%\<newline>'' = [] \<and>
   segments True ''%{\<newline>date\<newline>  }%\<newline>'' =
     [Text ''%'', Text ''{'', Text ''\<newline>'', Text ''d'', Text ''a'', Text ''t'', Text ''e'',
      Text ''\<newline>'', Text '' '', Text '' '', Text ''}'', Text ''%'', Text ''\<newline>''] \<and>
   segments True ''%{ date\<newline>}%'' = [Block ''%{ date\<newline>}%''] \<and>
   FindStringSubmatch ''%{ date\<newline>}%'' = [''%{ date\<newline>}%'', '' date\<newline>''] \<and>
   segments True ''%{\<newline>%{\<newline>date\<newline>}%'' = [Block ''%{\<newline>%{\<newline>date\<newline>}%''] \<and>
   FindStringSubmatch ''%{\<newline>%{\<newline>date\<newline>}%'' =
     [''%{\<newline>%{\<newline>date\<newline>}%'', ''\<newline>%{\<newline>date\<newline>'']"
  by code_simp

subsection \<open>A directory that clean deleted stops the walk\<close>

lemma map_of_filter_out: "map_of (filter (\<lambda>kv. fst kv \<noteq> e) ents) e = None"
  by (induction ents) auto

lemma lookup_modify_None:
  "es \<noteq> [] \<Longrightarrow> lookup r es = Inr n \<Longrightarrow> lookup (modify es None r) es = Inl ENOENT"
proof (induction es arbitrary: r)
  case Nil
  then show ?case by simp
next
  case (Cons e es)
  from Cons.prems obtain i ents c where r: "r = Dir i ents" "map_of ents e = Some c" "lookup c es = Inr n"
    by (cases r) (auto split: option.splits)
  show ?case
  proof (cases es)
    case Nil
    with r show ?thesis by (simp add: map_of_filter_out)
  next
    case (Cons e' es')
    with Cons.IH [OF _ r(3)] have "lookup (modify es None c) es = Inl ENOENT" by simp
    with r Cons show ?thesis by simp
  qed
qed

lemma os_RemoveAll_gone:
  assumes "path_elems path \<noteq> []" and "os_Stat fs path = Inr info"
  shows "os_ReadDir (snd (os_RemoveAll fs path)) path = Inl (PathError ENOENT path)"
proof -
  from assms(2) have ne: "path \<noteq> []" by (auto simp: os_Stat_def)
  from assms(2) ne obtain n where n: "lookup (root fs) (path_elems path) = Inr n"
    by (auto simp: os_Stat_def split: sum.splits)
  from lookup_modify_None [OF assms(1) n] n ne assms(1) show ?thesis
    by (simp add: os_RemoveAll_def os_ReadDir_def root_put_entry)
qed

lemma walkDir_clean_deleted_directory:
  assumes "path \<noteq> DstRoot site" and "path_elems path \<noteq> []"
    and "os_Lstat (fsys w) path = Inr dstInfo" and "IsDir dstInfo" and "d_IsDir d"
    and "os_Stat (fsys w) (clean_eqPath site path) = Inl e" and "is_not_exist e"
  shows "walkDir (Suc k) (clean_fn config site) path d w =
           Some (Failed (PathError ENOENT path),
                 emit (RemovedTree path) (w\<lparr>fsys := snd (os_RemoveAll (fsys w) path)\<rparr>))"
proof -
  let ?w1 = "emit (RemovedTree path) (w\<lparr>fsys := snd (os_RemoveAll (fsys w) path)\<rparr>)"
  have c: "clean_fn config site path (Some d) None w = (Nil, ?w1)"
    using assms by (simp add: clean_fn_def ent_Info_def Let_def)
  have "os_ReadDir (snd (os_RemoveAll (fsys w) path)) path = Inl (PathError ENOENT path)"
    using os_RemoveAll_gone [OF assms(2)] assms(3) by (simp add: os_Lstat_def)
  then have r: "os_ReadDir (fsys ?w1) path = Inl (PathError ENOENT path)"
    by (simp add: emit_def)
  have "clean_fn config site path (Some d) (Some (PathError ENOENT path)) ?w1
          = (Failed (PathError ENOENT path), ?w1)"
    by (simp add: clean_fn_def)
  with c r assms(5) show ?thesis by simp
qed

subsection \<open>Deleting a file entry\<close>

lemma os_RemoveAll_absent:
  assumes "path_elems path \<noteq> []" and "os_Stat fs path = Inr info"
  shows "os_Stat (snd (os_RemoveAll fs path)) path = Inl (PathError ENOENT path)"
proof -
  from assms(2) have ne: "path \<noteq> []" by (auto simp: os_Stat_def)
  from assms(2) ne obtain n where n: "lookup (root fs) (path_elems path) = Inr n"
    by (auto simp: os_Stat_def split: sum.splits)
  from lookup_modify_None [OF assms(1) n] n ne assms(1) show ?thesis
    by (simp add: os_RemoveAll_def os_Stat_def root_put_entry)
qed

text \<open>
  The decision on one file entry that the walk reaches (a path below the root of the
  file system): when \<open>os.Stat\<close> of the path \<open>clean_eqPath_file\<close> computes fails with a
  not-exist error, or succeeds while the entry is not a built document and the inodes
  differ, the function returns nil, prints the \<open>-\<close> line and the entry is gone;
  otherwise the state is as it was (and the entry with it).
\<close>

lemma clean_fn_file_decision:
  assumes "path \<noteq> DstRoot site" and "path_elems path \<noteq> []"
    and "os_Lstat (fsys w) path = Inr dstInfo" and "\<not> IsDir dstInfo"
  shows "if (case os_Stat (fsys w) (clean_eqPath_file config site path) of
               Inl e \<Rightarrow> is_not_exist e
             | Inr srcInfo \<Rightarrow>
                 filepath_Ext path \<noteq> ''.html'' \<and>
                 map_option Ino (Sys srcInfo) \<noteq> map_option Ino (Sys dstInfo))
         then fst (clean_fn config site path (Some ent) None w) = Nil \<and>
              stdout (snd (clean_fn config site path (Some ent) None w)) = stdout w @ [Removed path] \<and>
              os_Stat (fsys (snd (clean_fn config site path (Some ent) None w))) path =
                Inl (PathError ENOENT path)
         else snd (clean_fn config site path (Some ent) None w) = w"
proof -
  obtain j where j: "Sys dstInfo = Some \<lparr>Ino = j\<rparr>"
    using assms(3) stat_sys [of "fsys w" path dstInfo] by (auto simp: os_Lstat_def)
  have gone: "os_Stat (snd (os_RemoveAll (fsys w) path)) path = Inl (PathError ENOENT path)"
    using os_RemoveAll_absent [OF assms(2)] assms(3) by (simp add: os_Lstat_def)
  show ?thesis
  proof (cases "os_Stat (fsys w) (clean_eqPath_file config site path)")
    case (Inl e)
    then show ?thesis
      using assms j gone
      by (auto simp: clean_fn_def ent_Info_def Let_def emit_def)
  next
    case (Inr srcInfo)
    then obtain i where i: "Sys srcInfo = Some \<lparr>Ino = i\<rparr>"
      using stat_sys by blast
    show ?thesis
      using assms i j Inr gone
      by (auto simp: clean_fn_def ent_Info_def Let_def emit_def)
  qed
qed

text \<open>
  C4 (fails on the code): during reconciliation a file entry of the destination tree is
  deleted if and only if its counterpart in the source tree does not exist, or the entry
  is not a built document and the inodes differ. The decision of the function on the
  entry it is called with is the claimed one (\<open>clean_fn_file_decision\<close>), but the run
  breaks the claim in both directions. \<open>dst/zzz.png\<close> has no counterpart (\<open>src/zzz.png\<close>
  does not exist) and survives \<open>clean\<close>, because the walk ends at the directory
  \<open>dst/old\<close> that was deleted before it. With the roots written \<open>./src\<close> and
  \<open>./dst\<close>, \<open>WalkDir\<close> hands the function the cleaned path \<open>dst/keep.png\<close>, from
  which \<open>strings.TrimPrefix\<close> cannot take the root \<open>./dst\<close>: the function looks for
  \<open>src/dst/keep.png\<close> and deletes \<open>dst/keep.png\<close>, a hard link of the existing
  \<open>src/keep.png\<close> with the same inode.
\<close>

theorem clean_wrong_deletions:
  "os_Stat (fsys w_stale) ''src/zzz.png'' = Inl (PathError ENOENT ''src/zzz.png'') \<and>
   stat_after (clean 5 config0 site0 w_stale) ''dst/zzz.png'' =
     Some (Inr \<lparr>IsDir = False, ModTime = 0, Sys = Some \<lparr>Ino = 22\<rparr>\<rparr>) \<and>
   os_Stat (fsys w_linked) ''src/keep.png'' =
     Inr \<lparr>IsDir = False, ModTime = 2, Sys = Some \<lparr>Ino = 10\<rparr>\<rparr> \<and>
   os_Stat (fsys w_linked) ''dst/keep.png'' =
     Inr \<lparr>IsDir = False, ModTime = 2, Sys = Some \<lparr>Ino = 10\<rparr>\<rparr> \<and>
   clean_eqPath_file config0 site_dot_roots ''dst/keep.png'' = ''src/dst/keep.png'' \<and>
   observe (clean 5 config0 site_dot_roots w_linked) =
     Some (Nil, [Removed ''dst/keep.png''],
           Dir 0
            [(''dst'', Dir 2 []),
             (''src'', Dir 1 [(''keep.png'', File 10)]),
             (''tpl'', Dir 4 [(''page.tpl'', File 30)])])"
  by code_simp

subsection \<open>Whole runs\<close>

lemma build_sites_stops:
  "build fuel h config site w = Some (Failed e, w1) \<Longrightarrow>
   build_sites fuel h config (site # sites) w = Some (Fatal (SrcRoot site) e, w1)"
  by simp

lemma build_after_clean:
  "clean fuel config site w = Some (Nil, w1) \<Longrightarrow>
   build fuel h config site w = WalkDir fuel (SrcRoot site) (build_fn h config site) w1"
  by (simp add: build_def)

lemma build_after_failed_clean:
  "clean fuel config site w = Some (Failed e, w1) \<Longrightarrow>
   build fuel h config site w = WalkDir fuel (SrcRoot site) (build_fn h config site) w1"
  by (simp add: build_def)

lemma build_fn_skips_stat_error:
  assumes "path \<noteq> SrcRoot site" and "os_Stat (fsys w) path = Inr srcInfo" and "\<not> IsDir srcInfo"
    and "os_Stat (fsys w)
           (if filepath_Ext (build_eqPath site path) = Ext (Builder config)
            then build_eqPath_html site path else build_eqPath site path) = Inl e"
    and "\<not> is_not_exist e"
  shows "build_fn h config site path (Some ent) None w = (Nil, w)"
  using assms
  by (auto simp: build_fn_def ent_Info_def os_Lstat_def Let_def split: if_splits)

text \<open>
  C1 (fails on the code): an error of \<open>clean\<close> ends \<open>build\<close> with that error before
  the source tree is walked. On a first run the destination root does not exist:
  \<open>clean\<close> returns the not-exist error of the root, and \<open>build\<close> walks the source
  tree all the same, makes \<open>dst\<close> and \<open>dst/posts\<close>, builds the page and returns nil.
  By \<open>build_after_failed_clean\<close> this is so for every error of \<open>clean\<close>. (That
  \<open>clean\<close> runs first and that an error of \<open>build\<close> ends the run are
  \<open>build_after_clean\<close> and \<open>build_sites_stops\<close>.)
\<close>

theorem build_drops_clean_error:
  "observe (clean 5 config0 site0 w_first) =
     Some (Failed (PathError ENOENT ''dst''), [], root fs_first) \<and>
   observe (build 5 host0 config0 site0 w_first) =
     Some (Nil,
           [Printed [''bash'', ''-c'', ''\<newline>false\<newline>''],
            Printed [''bash'', ''-c'', ''\<newline>echo hi\<newline>''],
            Created ''dst/posts/a.html''],
           Dir 0
            [(''dst'', Dir 40 [(''posts'', Dir 41 [(''a.html'', File 42)])]),
             (''src'', Dir 1 [(''posts'', Dir 5 [(''a.md'', File 11)])]),
             (''tpl'', Dir 4 [(''page.tpl'', File 30)])])"
  by code_simp

text \<open>
  C2 (fails on the code): every I/O error during the walk of \<open>build\<close> ends the build
  with an error. Where the destination root is a regular file, the stat of
  \<open>dst/index.html\<close> fails with \<open>ENOTDIR\<close>, which is not a not-exist error: the entry
  is skipped and \<open>build\<close> returns nil, having built nothing. Where the destination root
  does not exist, \<open>os.WriteFile\<close> fails and its error is dropped: \<open>build\<close> prints
  the \<open>+\<close> line and returns nil, and the tree has no \<open>dst/index.html\<close>.
\<close>

theorem build_skips_io_errors:
  "os_Stat (fsys w_dst_file) ''dst/index.html'' = Inl (PathError ENOTDIR ''dst/index.html'') \<and>
   observe (build 5 host0 config0 site0 w_dst_file) = Some (Nil, [], root fs_dst_file) \<and>
   fst (os_WriteFile (fsys w_first_flat) ''dst/index.html'' ''<h1>\<newline>exit status 1\<newline></h1>\<newline>hi\<newline>\<newline>'')
     = Some (PathError ENOENT ''dst/index.html'') \<and>
   observe (build 5 host0 config0 site0 w_first_flat) =
     Some (Nil,
           [Printed [''bash'', ''-c'', ''\<newline>false\<newline>''],
            Printed [''bash'', ''-c'', ''\<newline>echo hi\<newline>''],
            Created ''dst/index.html''],
           root fs_first_flat)"
  by code_simp

text \<open>
  C8 (fails on the code): a second pass over an unchanged source tree prints nothing.
  The source tree holds a resource \<open>page.html\<close> (the builder's extension is \<open>.md\<close>).
  The first pass links it into the destination tree. In the second pass \<open>clean\<close> takes
  \<open>dst/page.html\<close> for a built page, looks for \<open>src/page.md\<close>, finds nothing and
  deletes the link, and the walk of \<open>build\<close> makes it again: a \<open>-\<close> line and a
  \<open>+\<close> line in every pass.
\<close>

theorem second_pass_not_silent:
  "build 5 host0 config0 site0 w_html_resource = Some (Nil, w_html_linked) \<and>
   observe (build 5 host0 config0 site0 (w_html_linked\<lparr>stdout := []\<rparr>)) =
     Some (Nil, [Removed ''dst/page.html'', Created ''dst/page.html''], root (fsys w_html_linked))"
  by code_simp

text \<open>
  C9 (fails on the code): after \<open>clean\<close> deleted a directory it goes on with the other
  entries and ends without an error. \<open>WalkDir\<close> reads a directory after the call of
  the function on it; \<open>dst/old\<close> is gone by then, the function is called again with the
  not-exist error and returns it, and the walk ends (\<open>walkDir_clean_deleted_directory\<close>):
  \<open>clean\<close> returns the error, and \<open>dst/zzz.png\<close>, which has no counterpart in the
  source tree, is still there.
\<close>

theorem clean_stops_after_directory:
  "observe (clean 5 config0 site0 w_stale) =
     Some (Failed (PathError ENOENT ''dst/old''), [RemovedTree ''dst/old''],
           Dir 0
            [(''dst'', Dir 2 [(''index.html'', File 20), (''keep.png'', File 10), (''zzz.png'', File 22)]),
             (''src'', Dir 1 [(''index.md'', File 11), (''keep.png'', File 10)]),
             (''tpl'', Dir 4 [(''page.tpl'', File 30)])]) \<and>
   os_Stat fs_stale ''src/zzz.png'' = Inl (PathError ENOENT ''src/zzz.png'')"
  by code_simp


end
